theory Spec2Isabelle
  imports Main
begin

section \<open>JavaScript values and errors\<close>

text \<open>
  Token claims and database rows are plain JavaScript objects whose properties are read by
  name, so a property that was never written reads as \<open>undefined\<close>. Values are the
  ones that occur in claims and rows: \<open>undefined\<close>, \<open>null\<close>, numbers (integers
  only: ids, versions and timestamps), strings and objects.
\<close>

datatype jsval = JUndefined | JNull | JNum int | JStr string | JObj "(string \<times> jsval) list"

type_synonym props = "(string \<times> jsval) list"

text \<open>
  The exceptions that the modelled code throws or receives. \<open>UnauthorizedError\<close> is the
  repository's own 401 error (\<open>core/errors/httpErrors.js\<close>); \<open>JsonWebTokenError\<close> and
  \<open>TokenExpiredError\<close> are thrown by \<open>jsonwebtoken\<close>; \<open>TypeError\<close> is the
  runtime's error for a property read on \<open>null\<close> or \<open>undefined\<close>; the last two are
  the Prisma client's rejections of an ill-typed query and of an update that matches no row.
\<close>

datatype error =
    UnauthorizedError string
  | JsonWebTokenError string
  | TokenExpiredError string
  | TypeError string
  | PrismaClientValidationError
  | PrismaRecordNotFound

text \<open>\<open>o.k\<close> on an object literal: the value stored under \<open>k\<close>, else \<open>undefined\<close>.\<close>

definition field :: "props \<Rightarrow> string \<Rightarrow> jsval" where
  "field ps k = (case map_of ps k of None \<Rightarrow> JUndefined | Some v \<Rightarrow> v)"

text \<open>\<open>v.k\<close> on any value: reading a property of \<open>null\<close> or \<open>undefined\<close> throws.\<close>

fun get_prop :: "jsval \<Rightarrow> string \<Rightarrow> error + jsval" where
  "get_prop JUndefined k =
     Inl (TypeError (''Cannot read properties of undefined (reading '' @ k @ '')''))"
| "get_prop JNull k =
     Inl (TypeError (''Cannot read properties of null (reading '' @ k @ '')''))"
| "get_prop (JObj ps) k = Inr (field ps k)"
| "get_prop v k = Inr JUndefined"

text \<open>
  The number a string converts to under \<open>==\<close>. Only the empty string and signed decimal
  integers are converted; every other spelling (fractions, exponents, hexadecimal,
  surrounding blanks) is treated as not a number.
\<close>

fun digits_val :: "string \<Rightarrow> nat \<Rightarrow> nat option" where
  "digits_val [] acc = Some acc"
| "digits_val (c # cs) acc =
     (if 48 \<le> (of_char c :: nat) \<and> (of_char c :: nat) \<le> 57
      then digits_val cs (10 * acc + (of_char c - 48))
      else None)"

definition to_number :: "string \<Rightarrow> int option" where
  "to_number s =
     (case s of
        [] \<Rightarrow> Some 0
      | c # cs \<Rightarrow>
          if c = CHR ''-'' \<and> cs \<noteq> [] then map_option (\<lambda>n. - int n) (digits_val cs 0)
          else if c = CHR ''+'' \<and> cs \<noteq> [] then map_option int (digits_val cs 0)
          else map_option int (digits_val s 0))"

text \<open>
  JavaScript's loose equality \<open>==\<close>. \<open>null\<close> and \<open>undefined\<close> equal each other and
  nothing else; a number and a string are compared as numbers; an object meets a string as
  \<open>[object Object]\<close>; two objects are equal only when they are the same reference, which a
  row and a decoded claim never are.
\<close>

fun loose_eq :: "jsval \<Rightarrow> jsval \<Rightarrow> bool" where
  "loose_eq JUndefined JUndefined = True"
| "loose_eq JUndefined JNull = True"
| "loose_eq JNull JUndefined = True"
| "loose_eq JNull JNull = True"
| "loose_eq (JNum a) (JNum b) = (a = b)"
| "loose_eq (JStr a) (JStr b) = (a = b)"
| "loose_eq (JNum a) (JStr s) = (to_number s = Some a)"
| "loose_eq (JStr s) (JNum a) = (to_number s = Some a)"
| "loose_eq (JObj ps) (JStr s) = (s = ''[object Object]'')"
| "loose_eq (JStr s) (JObj ps) = (s = ''[object Object]'')"
| "loose_eq v w = False"

section \<open>The token codec (\<open>jsonwebtoken\<close>)\<close>

text \<open>
  A compact serialization is either a well-formed token, determined by its claims and the
  key that signed it (HS256 is deterministic), or some other string. The signature is
  idealised: a token verifies under a secret exactly when it was signed with that secret.
  The clock is \<open>Math.floor(Date.now() / 1000)\<close>, in seconds, and \<open>expiresIn\<close> is the
  configured lifetime in seconds.
\<close>

datatype jwt = Signed props string | Malformed string

text \<open>\<open>jwt.sign(payload, secretOrKey, { expiresIn })\<close>: stamps \<open>iat\<close> and \<open>exp\<close>.\<close>

definition jwt_sign :: "props \<Rightarrow> string \<Rightarrow> int \<Rightarrow> int \<Rightarrow> jwt" where
  "jwt_sign payload secretOrKey expiresIn now =
     Signed (payload @ [(''iat'', JNum now), (''exp'', JNum (now + expiresIn))]) secretOrKey"

text \<open>
  \<open>jwt.verify(token, secretOrKey)\<close>: the decoded claims, or \<open>JsonWebTokenError\<close> for a
  malformed token or a wrong signature, or \<open>TokenExpiredError\<close> once the clock has
  reached \<open>exp\<close>.
\<close>

fun jwt_verify :: "jwt \<Rightarrow> string \<Rightarrow> int \<Rightarrow> error + props" where
  "jwt_verify (Malformed s) secretOrKey now = Inl (JsonWebTokenError ''jwt malformed'')"
| "jwt_verify (Signed cl k) secretOrKey now =
     (if k \<noteq> secretOrKey then Inl (JsonWebTokenError ''invalid signature'')
      else case map_of cl ''exp'' of
             None \<Rightarrow> Inr cl
           | Some (JNum e) \<Rightarrow>
               if e \<le> now then Inl (TokenExpiredError ''jwt expired'') else Inr cl
           | Some v \<Rightarrow> Inl (JsonWebTokenError ''invalid exp value''))"

section \<open>Accounts and the credential store\<close>

datatype status = ACTIVE | INACTIVE | DELETED

text \<open>
  The columns of the \<open>User\<close> model that the session code reads or writes, under the
  property names it uses (\<open>user.id\<close> is \<open>user_id\<close> here). A null \<open>refreshTokenHash\<close>
  or \<open>lastLoginAt\<close> is \<open>None\<close>.
\<close>

record user =
  user_id :: string
  email :: string
  username :: string
  name :: string
  passwordHash :: string
  role :: string
  status :: status
  refreshTokenHash :: "string option"
  refreshVersion :: int
  lastLoginAt :: "int option"

type_synonym store = "user list"

text \<open>
  The user repository that the session service is written against (\<open>findByUsernameForAuth\<close>,
  \<open>findById\<close>, \<open>update\<close>) is not among the sources; the setup guide prints an earlier
  one, without \<open>findByUsernameForAuth\<close>. Its three methods are therefore taken from the
  spec's Credential Store, which persists one record per user (password hash, refresh-token
  hash, refresh-token version, status) and exposes lookup by identifier and an atomic
  update.
\<close>

text \<open>
  Modelled from the spec: \<open>userRepository.findByUsernameForAuth\<close> (absent from the
  sources), the Credential Store's lookup by identifier; it returns the whole record, or
  \<open>null\<close>.
\<close>

definition userRepository_findByUsernameForAuth :: "string \<Rightarrow> store \<Rightarrow> user option" where
  "userRepository_findByUsernameForAuth uname st = find (\<lambda>u. username u = uname) st"

text \<open>
  Modelled from the spec: \<open>userRepository.findById\<close> (absent from the sources), the
  Credential Store's lookup by account id; it returns the whole record, or \<open>null\<close>. As
  with the Prisma client behind it, an \<open>id\<close> that is not a string is rejected.
\<close>

definition userRepository_findById :: "jsval \<Rightarrow> store \<Rightarrow> error + user option" where
  "userRepository_findById i st =
     (case i of
        JStr s \<Rightarrow> Inr (find (\<lambda>u. user_id u = s) st)
      | _ \<Rightarrow> Inl PrismaClientValidationError)"

text \<open>
  Modelled from the spec: \<open>userRepository.update\<close> (absent from the sources), the
  Credential Store's atomic update: the given columns of the record with that id are
  written in one step. As with the Prisma client behind it, an id that has no record is
  rejected.
\<close>

definition userRepository_update :: "string \<Rightarrow> (user \<Rightarrow> user) \<Rightarrow> store \<Rightarrow> error + store" where
  "userRepository_update i f st =
     (case find (\<lambda>u. user_id u = i) st of
        None \<Rightarrow> Inl PrismaRecordNotFound
      | Some _ \<Rightarrow> Inr (map (\<lambda>u. if user_id u = i then f u else u) st))"

section \<open>The session service (\<open>makeAuthService\<close>)\<close>

text \<open>
  The injected collaborators: \<open>bcrypt.compare\<close> and the SHA-256 hex digest are taken as
  they are, as functions; \<open>env\<close> carries the two signing secrets and the two lifetimes.
  The logger's records are not modelled.
\<close>

record crypto =
  bcrypt_compare :: "string \<Rightarrow> string \<Rightarrow> bool"
  sha256_hex :: "jwt \<Rightarrow> string"

record env =
  JWT_SECRET :: string
  JWT_EXPIRES_IN :: int
  JWT_REFRESH_SECRET :: string
  JWT_REFRESH_EXPIRES_IN :: int

record user_summary =
  summary_id :: string
  summary_email :: string
  summary_username :: string
  summary_name :: string
  summary_role :: string

record login_result =
  accessToken :: jwt
  refreshToken :: jwt
  user :: user_summary

definition authService_login ::
  "crypto \<Rightarrow> env \<Rightarrow> int \<Rightarrow> string \<Rightarrow> string \<Rightarrow> store \<Rightarrow> error + (login_result \<times> store)" where
  "authService_login c e now uname password st =
     (case userRepository_findByUsernameForAuth uname st of
        None \<Rightarrow> Inl (UnauthorizedError ''Invalid credentials'')
      | Some u \<Rightarrow>
          if status u = DELETED then Inl (UnauthorizedError ''Invalid credentials'')
          else if \<not> bcrypt_compare c password (passwordHash u)
            then Inl (UnauthorizedError ''Invalid credentials'')
          else if status u \<noteq> ACTIVE then Inl (UnauthorizedError ''Account is not active'')
          else
            let access = jwt_sign
                  [(''userId'', JStr (user_id u)), (''role'', JStr (role u)),
                   (''username'', JStr (username u)), (''refreshVersion'', JNum (refreshVersion u))]
                  (JWT_SECRET e) (JWT_EXPIRES_IN e) now;
                refresh = jwt_sign [(''userId'', JStr (user_id u))]
                  (JWT_REFRESH_SECRET e) (JWT_REFRESH_EXPIRES_IN e) now;
                refreshTokenHash' = sha256_hex c refresh
            in case userRepository_update (user_id u)
                      (\<lambda>r. r\<lparr>refreshTokenHash := Some refreshTokenHash', lastLoginAt := Some now\<rparr>) st of
                 Inl err \<Rightarrow> Inl err
               | Inr st' \<Rightarrow>
                   Inr (\<lparr>accessToken = access, refreshToken = refresh,
                         user = \<lparr>summary_id = user_id u, summary_email = email u,
                                  summary_username = username u, summary_name = name u,
                                  summary_role = role u\<rparr>\<rparr>, st'))"

definition authService_refreshToken ::
  "crypto \<Rightarrow> env \<Rightarrow> int \<Rightarrow> jwt \<Rightarrow> store \<Rightarrow> error + jwt" where
  "authService_refreshToken c e now presented st =
     (case jwt_verify presented (JWT_REFRESH_SECRET e) now of
        Inl err \<Rightarrow> Inl (UnauthorizedError ''Invalid refresh token'')
      | Inr decoded \<Rightarrow>
          (case userRepository_findById (field decoded ''userId'') st of
             Inl err \<Rightarrow> Inl err
           | Inr None \<Rightarrow> Inl (UnauthorizedError ''Invalid refresh token'')
           | Inr (Some u) \<Rightarrow>
               if status u \<noteq> ACTIVE then Inl (UnauthorizedError ''Invalid refresh token'')
               else if refreshTokenHash u \<noteq> Some (sha256_hex c presented)
                 then Inl (UnauthorizedError ''Invalid refresh token'')
               else Inr (jwt_sign [(''userId'', JStr (user_id u)), (''role'', JStr (role u))]
                           (JWT_SECRET e) (JWT_EXPIRES_IN e) now)))"

definition authService_logout :: "string \<Rightarrow> store \<Rightarrow> error + store" where
  "authService_logout userId st =
     userRepository_update userId (\<lambda>r. r\<lparr>refreshTokenHash := None\<rparr>) st"

text \<open>
  Names for what a login returns (\<open>issued\<close>) and for the store it leaves
  (\<open>stored\<close>) when it gets through its three checks; \<open>login_success\<close> below
  shows that they are what \<open>authService_login\<close> computes.
\<close>

definition issued :: "crypto \<Rightarrow> env \<Rightarrow> int \<Rightarrow> user \<Rightarrow> login_result" where
  "issued c e now u =
     \<lparr>accessToken = jwt_sign
         [(''userId'', JStr (user_id u)), (''role'', JStr (role u)),
          (''username'', JStr (username u)), (''refreshVersion'', JNum (refreshVersion u))]
         (JWT_SECRET e) (JWT_EXPIRES_IN e) now,
      refreshToken = jwt_sign [(''userId'', JStr (user_id u))]
         (JWT_REFRESH_SECRET e) (JWT_REFRESH_EXPIRES_IN e) now,
      user = \<lparr>summary_id = user_id u, summary_email = email u, summary_username = username u,
               summary_name = name u, summary_role = role u\<rparr>\<rparr>"

definition stored :: "crypto \<Rightarrow> env \<Rightarrow> int \<Rightarrow> user \<Rightarrow> store \<Rightarrow> store" where
  "stored c e now u st =
     map (\<lambda>r. if user_id r = user_id u
               then r\<lparr>refreshTokenHash := Some (sha256_hex c (refreshToken (issued c e now u))),
                      lastLoginAt := Some now\<rparr>
               else r) st"

section \<open>The authentication repository and the identity verification middleware\<close>

text \<open>
  A row as the Prisma client returns it: an object with one property per column, under the
  model's field names (the names the session service reads).
\<close>

fun status_name :: "status \<Rightarrow> string" where
  "status_name ACTIVE = ''ACTIVE''"
| "status_name INACTIVE = ''INACTIVE''"
| "status_name DELETED = ''DELETED''"

definition row :: "user \<Rightarrow> jsval" where
  "row u = JObj
     [(''id'', JStr (user_id u)), (''email'', JStr (email u)), (''username'', JStr (username u)),
      (''name'', JStr (name u)), (''passwordHash'', JStr (passwordHash u)),
      (''role'', JStr (role u)), (''status'', JStr (status_name (status u))),
      (''refreshTokenHash'', (case refreshTokenHash u of None \<Rightarrow> JNull | Some h \<Rightarrow> JStr h)),
      (''refreshVersion'', JNum (refreshVersion u)),
      (''lastLoginAt'', (case lastLoginAt u of None \<Rightarrow> JNull | Some t \<Rightarrow> JNum t))]"

text \<open>
  \<open>makeAuthRepository.findById(id)\<close> is \<open>prisma.user.findUnique({ where: { id } })\<close>:
  the row with that id or \<open>null\<close>; the client rejects an \<open>id\<close> that is not a string.
\<close>

definition authRepository_findById :: "store \<Rightarrow> jsval \<Rightarrow> error + jsval" where
  "authRepository_findById st i =
     (case i of
        JStr s \<Rightarrow> Inr (case find (\<lambda>u. user_id u = s) st of None \<Rightarrow> JNull | Some u \<Rightarrow> row u)
      | _ \<Rightarrow> Inl PrismaClientValidationError)"

text \<open>
  The \<open>Authorization\<close> header, when present: \<open>Bearer t\<close> is the string that starts with
  \<open>Bearer\<close> and a blank and continues with the serialization \<open>t\<close>; \<open>Other s\<close> is a
  string without that prefix.
\<close>

datatype authorization = Bearer jwt | Other string

text \<open>
  What the middleware hands on: \<open>Accepted decoded\<close> is \<open>req.user = decoded; next()\<close>,
  \<open>NextError err\<close> is \<open>next(err)\<close>.
\<close>

datatype outcome = Accepted props | NextError error

text \<open>
  The body of the \<open>try\<close> block. \<open>findById\<close> is the method of whatever the container
  resolves under \<open>authServiceRepository\<close> (the wiring is not among the sources); it is
  called with the one object \<open>{ id: decoded.id }\<close>.
\<close>

definition authMiddleware_try ::
  "(jsval \<Rightarrow> error + jsval) \<Rightarrow> env \<Rightarrow> int \<Rightarrow> authorization option \<Rightarrow> error + props" where
  "authMiddleware_try findById e now authHeader =
     (case authHeader of
        None \<Rightarrow> Inl (UnauthorizedError ''No token provided'')
      | Some (Other s) \<Rightarrow> Inl (UnauthorizedError ''No token provided'')
      | Some (Bearer token) \<Rightarrow>
          (case jwt_verify token (JWT_SECRET e) now of
             Inl err \<Rightarrow> Inl err
           | Inr decoded \<Rightarrow>
               (case findById (JObj [(''id'', field decoded ''id'')]) of
                  Inl err \<Rightarrow> Inl err
                | Inr u \<Rightarrow>
                    (case get_prop u ''refresh_version'' of
                       Inl err \<Rightarrow> Inl err
                     | Inr v \<Rightarrow>
                         if \<not> loose_eq v (field decoded ''refresh_version'')
                         then Inl (UnauthorizedError ''Token is not valid'')
                         else Inr decoded))))"

text \<open>The \<open>catch\<close> clause renames the two token errors and passes every other error on.\<close>

definition authMiddleware ::
  "(jsval \<Rightarrow> error + jsval) \<Rightarrow> env \<Rightarrow> int \<Rightarrow> authorization option \<Rightarrow> outcome" where
  "authMiddleware findById e now authHeader =
     (case authMiddleware_try findById e now authHeader of
        Inr decoded \<Rightarrow> Accepted decoded
      | Inl (JsonWebTokenError m) \<Rightarrow> NextError (UnauthorizedError ''Invalid token'')
      | Inl (TokenExpiredError m) \<Rightarrow> NextError (UnauthorizedError ''Token expired'')
      | Inl err \<Rightarrow> NextError err)"

section \<open>A worked scenario\<close>

text \<open>
  The account of the spec's scenario and a configuration to run it with. The password
  check and the digest of the scenario are stand-ins that can be computed: a hash that
  verifies exactly its own password, and a digest that writes the token out (numbers in
  unary), which tells the tokens of the scenario apart.
\<close>

definition alice :: user where
  "alice = \<lparr>user_id = ''u1'', email = ''alice@example.com'', username = ''alice'',
            name = ''Alice'', passwordHash = ''hash(correct)'', role = ''USER'',
            status = ACTIVE, refreshTokenHash = None, refreshVersion = 0,
            lastLoginAt = None\<rparr>"

definition scenario_digest :: "jwt \<Rightarrow> string" where
  "scenario_digest t =
     (case t of
        Malformed s \<Rightarrow> s
      | Signed cl k \<Rightarrow>
          concat (map (\<lambda>(n, v). n @ ''='' @
                         (case v of JNum i \<Rightarrow> replicate (nat i) (CHR ''i'')
                                  | JStr s \<Rightarrow> s
                                  | _ \<Rightarrow> []) @ '';'') cl) @ k)"

definition scenario_crypto :: crypto where
  "scenario_crypto =
     \<lparr>bcrypt_compare = (\<lambda>password hash. hash = ''hash('' @ password @ '')''),
      sha256_hex = scenario_digest\<rparr>"

definition scenario_env :: env where
  "scenario_env = \<lparr>JWT_SECRET = ''access-secret'', JWT_EXPIRES_IN = 5,
                    JWT_REFRESH_SECRET = ''refresh-secret'', JWT_REFRESH_EXPIRES_IN = 9\<rparr>"

text \<open>The tokens that a login of alice at clock \<open>t\<close> issues, and her row afterwards.\<close>

definition alice_access :: "int \<Rightarrow> jwt" where
  "alice_access t =
     Signed [(''userId'', JStr ''u1''), (''role'', JStr ''USER''), (''username'', JStr ''alice''),
             (''refreshVersion'', JNum 0), (''iat'', JNum t), (''exp'', JNum (t + 5))]
            ''access-secret''"

definition alice_refresh :: "int \<Rightarrow> jwt" where
  "alice_refresh t =
     Signed [(''userId'', JStr ''u1''), (''iat'', JNum t), (''exp'', JNum (t + 9))]
            ''refresh-secret''"

definition alice_session :: "int \<Rightarrow> login_result" where
  "alice_session t =
     \<lparr>accessToken = alice_access t, refreshToken = alice_refresh t,
      user = \<lparr>summary_id = ''u1'', summary_email = ''alice@example.com'',
               summary_username = ''alice'', summary_name = ''Alice'',
               summary_role = ''USER''\<rparr>\<rparr>"

definition alice_logged_in :: "int \<Rightarrow> user" where
  "alice_logged_in t =
     alice\<lparr>refreshTokenHash := Some (scenario_digest (alice_refresh t)), lastLoginAt := Some t\<rparr>"

section \<open>Facts about the store and the codec\<close>

lemma find_Some_holds: "find P xs = Some u \<Longrightarrow> P u \<and> u \<in> set xs"
  by (induction xs) (auto split: if_splits)

lemma find_by_id_distinct:
  "distinct (map user_id st) \<Longrightarrow> u \<in> set st \<Longrightarrow> find (\<lambda>r. user_id r = user_id u) st = Some u"
  by (induction st) (auto simp: image_iff)

lemma find_by_id_after_map:
  assumes "find (\<lambda>r. user_id r = i) st = Some u" and "\<And>r. user_id (f r) = user_id r"
  shows "find (\<lambda>r. user_id r = i) (map (\<lambda>r. if user_id r = i then f r else r) st) = Some (f u)"
  using assms by (induction st) (auto split: if_splits)

lemma find_map_preserve:
  "(\<And>r. P (g r) = P r) \<Longrightarrow> find P (map g st) = map_option g (find P st)"
  by (induction st) auto

lemma update_found:
  "find (\<lambda>r. user_id r = i) st = Some u \<Longrightarrow>
   userRepository_update i f st = Inr (map (\<lambda>r. if user_id r = i then f r else r) st)"
  by (simp add: userRepository_update_def)

lemma update_member:
  "u \<in> set st \<Longrightarrow>
   userRepository_update (user_id u) f st =
     Inr (map (\<lambda>r. if user_id r = user_id u then f r else r) st)"
proof -
  assume "u \<in> set st"
  then have "find (\<lambda>r. user_id r = user_id u) st \<noteq> None"
    by (auto simp: find_None_iff)
  then show ?thesis
    by (auto simp: userRepository_update_def)
qed

lemma map_ids_unchanged:
  "(\<And>r. user_id (f r) = user_id r) \<Longrightarrow>
   map user_id (map (\<lambda>r. if user_id r = i then f r else r) st) = map user_id st"
  by (induction st) auto

lemma stored_ids: "map user_id (stored c e now u st) = map user_id st"
  unfolding stored_def by (rule map_ids_unchanged) simp

lemma find_in_stored:
  assumes "find (\<lambda>r. user_id r = user_id u) st = Some u0"
  shows "find (\<lambda>r. user_id r = user_id u) (stored c e now u st)
           = Some (u0\<lparr>refreshTokenHash := Some (sha256_hex c (refreshToken (issued c e now u))),
                      lastLoginAt := Some now\<rparr>)"
  unfolding stored_def
  by (rule find_by_id_after_map
        [OF assms, of "\<lambda>r. r\<lparr>refreshTokenHash := Some (sha256_hex c (refreshToken (issued c e now u))),
                                lastLoginAt := Some now\<rparr>"]) simp

lemma cleared_rows:
  assumes "r \<in> set (map (\<lambda>x. if user_id x = i then x\<lparr>refreshTokenHash := None\<rparr> else x) st)"
    and "user_id r = i"
  shows "refreshTokenHash r = None"
proof -
  from assms(1) obtain r0
    where r0: "r = (if user_id r0 = i then r0\<lparr>refreshTokenHash := None\<rparr> else r0)"
    unfolding set_map by (rule imageE)
  show ?thesis
  proof (cases "user_id r0 = i")
    case True
    with r0 show ?thesis by simp
  next
    case False
    with r0 assms(2) show ?thesis by simp
  qed
qed

lemma login_user_found:
  assumes "userRepository_findByUsernameForAuth uname st = Some u"
  shows "\<exists>u0. find (\<lambda>r. user_id r = user_id u) st = Some u0"
proof -
  have "u \<in> set st"
    using assms find_Some_holds unfolding userRepository_findByUsernameForAuth_def by fast
  then show ?thesis
    by (cases "find (\<lambda>r. user_id r = user_id u) st") (auto simp: find_None_iff)
qed

text \<open>A token verifies under its own key for as long as the clock is short of \<open>exp\<close>.\<close>

lemma jwt_verify_fresh:
  assumes "map_of payload ''exp'' = None" and "now < t0 + expiresIn"
  shows "jwt_verify (jwt_sign payload k expiresIn t0) k now
           = Inr (payload @ [(''iat'', JNum t0), (''exp'', JNum (t0 + expiresIn))])"
  using assms by (simp add: jwt_sign_def map_add_def)

lemma jwt_verify_refresh_token:
  "jwt_verify (jwt_sign [(''userId'', v)] k expiresIn t0) k' now = Inr cl \<Longrightarrow>
   field cl ''userId'' = v"
  by (auto simp: jwt_sign_def field_def split: if_splits)

section \<open>The scenario, run\<close>

lemmas scenario_defs =
  alice_def scenario_crypto_def scenario_env_def alice_session_def alice_access_def
  alice_refresh_def alice_logged_in_def

lemma scenario_login:
  "authService_login scenario_crypto scenario_env t ''alice'' ''correct'' [alice]
     = Inr (alice_session t, [alice_logged_in t])"
  by (simp add: authService_login_def userRepository_findByUsernameForAuth_def
      userRepository_update_def jwt_sign_def Let_def scenario_defs)

lemma scenario_login_again:
  "authService_login scenario_crypto scenario_env t ''alice'' ''correct'' [alice_logged_in t0]
     = Inr (alice_session t, [alice_logged_in t])"
  by (simp add: authService_login_def userRepository_findByUsernameForAuth_def
      userRepository_update_def jwt_sign_def Let_def scenario_defs)

lemma scenario_digests_differ:
  "scenario_digest (alice_refresh 1) \<noteq> scenario_digest (alice_refresh 2)"
  by (simp add: scenario_digest_def alice_refresh_def eval_nat_numeral)

lemma scenario_refresh:
  "authService_refreshToken scenario_crypto scenario_env 2 (alice_refresh 1) [alice_logged_in 1]
     = Inr (Signed [(''userId'', JStr ''u1''), (''role'', JStr ''USER''),
                    (''iat'', JNum 2), (''exp'', JNum 7)] ''access-secret'')"
  by (simp add: authService_refreshToken_def userRepository_findById_def field_def
      jwt_sign_def scenario_defs)

section \<open>Login\<close>

text \<open>What a login does when it gets through its three checks, and when it gets through.\<close>

lemma login_success:
  assumes "userRepository_findByUsernameForAuth uname st = Some u"
    and "status u = ACTIVE" and "bcrypt_compare c password (passwordHash u)"
  shows "authService_login c e now uname password st = Inr (issued c e now u, stored c e now u st)"
proof -
  have "u \<in> set st"
    using assms(1) find_Some_holds unfolding userRepository_findByUsernameForAuth_def by fast
  then show ?thesis
    using assms by (simp add: authService_login_def update_member issued_def stored_def Let_def)
qed

lemma login_Inr_cases:
  assumes "authService_login c e now uname password st = Inr (res, st')"
  shows "\<exists>u. userRepository_findByUsernameForAuth uname st = Some u \<and> status u = ACTIVE
            \<and> bcrypt_compare c password (passwordHash u)
            \<and> res = issued c e now u \<and> st' = stored c e now u st"
proof (cases "userRepository_findByUsernameForAuth uname st")
  case None
  with assms show ?thesis by (simp add: authService_login_def)
next
  case (Some u)
  with assms have a: "status u = ACTIVE" and b: "bcrypt_compare c password (passwordHash u)"
    by (auto simp: authService_login_def split: if_splits)
  from login_success [OF Some a b] assms Some a b show ?thesis by auto
qed



text \<open>
  C7. A login for an identifier that has no account, or whose account is DELETED, fails
  with the 401 error \<open>Invalid credentials\<close>: the two cases give the very same error
  value, whatever the password.
\<close>

theorem login_absent_or_deleted:
  assumes "userRepository_findByUsernameForAuth uname st = None
           \<or> (\<exists>u. userRepository_findByUsernameForAuth uname st = Some u \<and> status u = DELETED)"
  shows "authService_login c e now uname password st = Inl (UnauthorizedError ''Invalid credentials'')"
  using assms by (auto simp: authService_login_def)

theorem login_absent_or_deleted_witness:
  "userRepository_findByUsernameForAuth ''bob'' [alice] = None
   \<and> authService_login scenario_crypto scenario_env 1 ''bob'' ''anything'' [alice]
       = Inl (UnauthorizedError ''Invalid credentials'')
   \<and> userRepository_findByUsernameForAuth ''alice'' [alice\<lparr>status := DELETED\<rparr>]
       = Some (alice\<lparr>status := DELETED\<rparr>)
   \<and> authService_login scenario_crypto scenario_env 1 ''alice'' ''correct'' [alice\<lparr>status := DELETED\<rparr>]
       = Inl (UnauthorizedError ''Invalid credentials'')"
proof -
  have a: "userRepository_findByUsernameForAuth ''bob'' [alice] = None"
    by (simp add: userRepository_findByUsernameForAuth_def alice_def)
  have d: "userRepository_findByUsernameForAuth ''alice'' [alice\<lparr>status := DELETED\<rparr>]
             = Some (alice\<lparr>status := DELETED\<rparr>)"
    by (simp add: userRepository_findByUsernameForAuth_def alice_def)
  from a have 1: "authService_login scenario_crypto scenario_env 1 ''bob'' ''anything'' [alice]
       = Inl (UnauthorizedError ''Invalid credentials'')"
    by (intro login_absent_or_deleted) simp
  from d have 2: "authService_login scenario_crypto scenario_env 1 ''alice'' ''correct''
         [alice\<lparr>status := DELETED\<rparr>] = Inl (UnauthorizedError ''Invalid credentials'')"
    by (intro login_absent_or_deleted) simp
  from a d 1 2 show ?thesis by simp
qed

text \<open>
  C8. For an INACTIVE account (neither ACTIVE nor DELETED), login with a password that
  verifies fails with \<open>Account is not active\<close>, and with a password that does not
  verify it fails with \<open>Invalid credentials\<close>: the status is looked at only after the
  password.
\<close>

theorem login_inactive:
  assumes "userRepository_findByUsernameForAuth uname st = Some u" and "status u = INACTIVE"
  shows "authService_login c e now uname password st =
           Inl (UnauthorizedError (if bcrypt_compare c password (passwordHash u)
                                   then ''Account is not active'' else ''Invalid credentials''))"
  using assms by (simp add: authService_login_def)

theorem login_inactive_witness:
  "userRepository_findByUsernameForAuth ''alice'' [alice\<lparr>status := INACTIVE\<rparr>]
     = Some (alice\<lparr>status := INACTIVE\<rparr>)
   \<and> status (alice\<lparr>status := INACTIVE\<rparr>) = INACTIVE
   \<and> authService_login scenario_crypto scenario_env 1 ''alice'' ''correct'' [alice\<lparr>status := INACTIVE\<rparr>]
       = Inl (UnauthorizedError ''Account is not active'')
   \<and> authService_login scenario_crypto scenario_env 1 ''alice'' ''wrong'' [alice\<lparr>status := INACTIVE\<rparr>]
       = Inl (UnauthorizedError ''Invalid credentials'')"
proof -
  have f: "userRepository_findByUsernameForAuth ''alice'' [alice\<lparr>status := INACTIVE\<rparr>]
             = Some (alice\<lparr>status := INACTIVE\<rparr>)"
    by (simp add: userRepository_findByUsernameForAuth_def alice_def)
  have s: "status (alice\<lparr>status := INACTIVE\<rparr>) = INACTIVE" by simp
  from login_inactive [OF f s, of scenario_crypto scenario_env 1 "''correct''"]
    login_inactive [OF f s, of scenario_crypto scenario_env 1 "''wrong''"] f
  show ?thesis by (simp add: scenario_crypto_def alice_def)
qed

section \<open>Refresh\<close>

text \<open>
  A refresh with the token of a login, on the store that login left, before the token
  expires: it returns a new access token for the account, and the fingerprint it finds in
  the store is the digest of the presented token.
\<close>

lemma refresh_after_login:
  assumes "distinct (map user_id st)"
    and "authService_login c e t0 uname password st = Inr (res, st1)"
    and "t1 < t0 + JWT_REFRESH_EXPIRES_IN e"
  shows "\<exists>u. userRepository_findByUsernameForAuth uname st = Some u
           \<and> authService_refreshToken c e t1 (refreshToken res) st1
               = Inr (jwt_sign [(''userId'', JStr (user_id u)), (''role'', JStr (role u))]
                        (JWT_SECRET e) (JWT_EXPIRES_IN e) t1)
           \<and> userRepository_findById (JStr (summary_id (user res))) st1
               = Inr (Some (u\<lparr>refreshTokenHash := Some (sha256_hex c (refreshToken res)),
                               lastLoginAt := Some t0\<rparr>))"
proof -
  from login_Inr_cases [OF assms(2)] obtain u where
    u: "userRepository_findByUsernameForAuth uname st = Some u" and active: "status u = ACTIVE"
    and res: "res = issued c e t0 u" and st1: "st1 = stored c e t0 u st"
    by blast
  let ?i = "user_id u"
  let ?u1 = "u\<lparr>refreshTokenHash := Some (sha256_hex c (refreshToken res)), lastLoginAt := Some t0\<rparr>"
  have "u \<in> set st"
    using u find_Some_holds unfolding userRepository_findByUsernameForAuth_def by fast
  with assms(1) have "find (\<lambda>r. user_id r = ?i) st = Some u"
    by (rule find_by_id_distinct)
  then have found: "find (\<lambda>r. user_id r = ?i) st1 = Some ?u1"
    unfolding st1 res by (rule find_in_stored)
  have sid: "summary_id (user res) = ?i" by (simp add: res issued_def)
  have tok: "refreshToken res = jwt_sign [(''userId'', JStr ?i)]
               (JWT_REFRESH_SECRET e) (JWT_REFRESH_EXPIRES_IN e) t0"
    by (simp add: res issued_def)
  have ver: "jwt_verify (refreshToken res) (JWT_REFRESH_SECRET e) t1
               = Inr ([(''userId'', JStr ?i)] @ [(''iat'', JNum t0), (''exp'', JNum (t0 + JWT_REFRESH_EXPIRES_IN e))])"
    unfolding tok using assms(3) by (intro jwt_verify_fresh) simp_all
  have "authService_refreshToken c e t1 (refreshToken res) st1
          = Inr (jwt_sign [(''userId'', JStr ?i), (''role'', JStr (role u))]
                   (JWT_SECRET e) (JWT_EXPIRES_IN e) t1)"
    using ver found active
    by (simp add: authService_refreshToken_def userRepository_findById_def field_def)
  moreover have "userRepository_findById (JStr (summary_id (user res))) st1 = Inr (Some ?u1)"
    using found sid by (simp add: userRepository_findById_def)
  ultimately show ?thesis using u by simp
qed

text \<open>
  C4, as stated, fails when a configured lifetime is not positive. With a refresh lifetime
  of zero the login succeeds, but the refresh token it returns has \<open>exp = iat\<close>, so a
  refresh in that same second is refused with \<open>Invalid refresh token\<close>. With an access
  lifetime of zero the refresh succeeds, but the access token it returns is already
  expired.
\<close>

theorem nonpositive_lifetime_counterexample:
  "authService_login scenario_crypto (scenario_env\<lparr>JWT_REFRESH_EXPIRES_IN := 0\<rparr>) 1
       ''alice'' ''correct'' [alice]
     = Inr (\<lparr>accessToken = alice_access 1,
             refreshToken = Signed [(''userId'', JStr ''u1''), (''iat'', JNum 1), (''exp'', JNum 1)]
                              ''refresh-secret'',
             user = user (alice_session 1)\<rparr>,
            [alice\<lparr>refreshTokenHash :=
                     Some (scenario_digest
                       (Signed [(''userId'', JStr ''u1''), (''iat'', JNum 1), (''exp'', JNum 1)]
                          ''refresh-secret'')),
                   lastLoginAt := Some 1\<rparr>])
   \<and> authService_refreshToken scenario_crypto (scenario_env\<lparr>JWT_REFRESH_EXPIRES_IN := 0\<rparr>) 1
        (Signed [(''userId'', JStr ''u1''), (''iat'', JNum 1), (''exp'', JNum 1)] ''refresh-secret'')
        [alice\<lparr>refreshTokenHash :=
                 Some (scenario_digest
                   (Signed [(''userId'', JStr ''u1''), (''iat'', JNum 1), (''exp'', JNum 1)]
                      ''refresh-secret'')),
               lastLoginAt := Some 1\<rparr>]
     = Inl (UnauthorizedError ''Invalid refresh token'')
   \<and> authService_login scenario_crypto (scenario_env\<lparr>JWT_EXPIRES_IN := 0\<rparr>) 1
       ''alice'' ''correct'' [alice]
     = Inr (\<lparr>accessToken =
               Signed [(''userId'', JStr ''u1''), (''role'', JStr ''USER''),
                       (''username'', JStr ''alice''), (''refreshVersion'', JNum 0),
                       (''iat'', JNum 1), (''exp'', JNum 1)] ''access-secret'',
             refreshToken = alice_refresh 1, user = user (alice_session 1)\<rparr>,
            [alice_logged_in 1])
   \<and> authService_refreshToken scenario_crypto (scenario_env\<lparr>JWT_EXPIRES_IN := 0\<rparr>) 1
        (alice_refresh 1) [alice_logged_in 1]
     = Inr (Signed [(''userId'', JStr ''u1''), (''role'', JStr ''USER''),
                    (''iat'', JNum 1), (''exp'', JNum 1)] ''access-secret'')
   \<and> jwt_verify (Signed [(''userId'', JStr ''u1''), (''role'', JStr ''USER''),
                          (''iat'', JNum 1), (''exp'', JNum 1)] ''access-secret'')
        (JWT_SECRET (scenario_env\<lparr>JWT_EXPIRES_IN := 0\<rparr>)) 1
     = Inl (TokenExpiredError ''jwt expired'')"
  by (simp add: authService_login_def authService_refreshToken_def
      userRepository_findByUsernameForAuth_def userRepository_findById_def
      userRepository_update_def jwt_sign_def field_def Let_def scenario_defs)

text \<open>
  C4, amended. After a successful login, a refresh with the returned refresh token while
  the clock is short of that token's \<open>exp\<close>, under a positive access lifetime (nothing
  in between, ids unique in the store), succeeds and returns the access token signed over
  the account's id and role at that moment; this token verifies under the access secret
  and is unexpired. The fingerprint stored at login is the digest of the presented token,
  which is what the refresh recomputes and compares: with any other stored fingerprint the
  same refresh fails with \<open>Invalid refresh token\<close>.
\<close>

theorem login_then_refresh:
  assumes "distinct (map user_id st)"
    and "authService_login c e t0 uname password st = Inr (res, st1)"
    and "t1 < t0 + JWT_REFRESH_EXPIRES_IN e" and "0 < JWT_EXPIRES_IN e"
  shows "authService_refreshToken c e t1 (refreshToken res) st1
           = Inr (jwt_sign [(''userId'', JStr (summary_id (user res))),
                            (''role'', JStr (summary_role (user res)))]
                    (JWT_SECRET e) (JWT_EXPIRES_IN e) t1)
         \<and> jwt_verify (jwt_sign [(''userId'', JStr (summary_id (user res))),
                                  (''role'', JStr (summary_role (user res)))]
                          (JWT_SECRET e) (JWT_EXPIRES_IN e) t1) (JWT_SECRET e) t1
             = Inr [(''userId'', JStr (summary_id (user res))),
                    (''role'', JStr (summary_role (user res))),
                    (''iat'', JNum t1), (''exp'', JNum (t1 + JWT_EXPIRES_IN e))]
         \<and> (\<exists>u1. userRepository_findById (JStr (summary_id (user res))) st1 = Inr (Some u1)
                \<and> refreshTokenHash u1 = Some (sha256_hex c (refreshToken res)))
         \<and> (\<forall>h. h \<noteq> Some (sha256_hex c (refreshToken res)) \<longrightarrow>
                authService_refreshToken c e t1 (refreshToken res)
                  (map (\<lambda>r. if user_id r = summary_id (user res)
                             then r\<lparr>refreshTokenHash := h\<rparr> else r) st1)
                = Inl (UnauthorizedError ''Invalid refresh token''))"
proof -
  from login_Inr_cases [OF assms(2)] obtain u where
    u: "userRepository_findByUsernameForAuth uname st = Some u" and active: "status u = ACTIVE"
    and res: "res = issued c e t0 u"
    by blast
  let ?i = "user_id u"
  let ?u1 = "u\<lparr>refreshTokenHash := Some (sha256_hex c (refreshToken res)), lastLoginAt := Some t0\<rparr>"
  let ?new = "jwt_sign [(''userId'', JStr ?i), (''role'', JStr (role u))]
                (JWT_SECRET e) (JWT_EXPIRES_IN e) t1"
  have sid: "summary_id (user res) = ?i" and srole: "summary_role (user res) = role u"
    by (simp_all add: res issued_def)
  from refresh_after_login [OF assms(1-3)] u
  have ref: "authService_refreshToken c e t1 (refreshToken res) st1 = Inr ?new"
    and look: "userRepository_findById (JStr ?i) st1 = Inr (Some ?u1)"
    by (auto simp: sid)
  have fresh: "jwt_verify ?new (JWT_SECRET e) t1
      = Inr ([(''userId'', JStr ?i), (''role'', JStr (role u))]
               @ [(''iat'', JNum t1), (''exp'', JNum (t1 + JWT_EXPIRES_IN e))])"
    using assms(4) by (intro jwt_verify_fresh) simp_all
  have found: "find (\<lambda>r. user_id r = ?i) st1 = Some ?u1"
    using look by (simp add: userRepository_findById_def)
  have tok: "refreshToken res = jwt_sign [(''userId'', JStr ?i)]
               (JWT_REFRESH_SECRET e) (JWT_REFRESH_EXPIRES_IN e) t0"
    by (simp add: res issued_def)
  have ver: "jwt_verify (refreshToken res) (JWT_REFRESH_SECRET e) t1
               = Inr ([(''userId'', JStr ?i)]
                        @ [(''iat'', JNum t0), (''exp'', JNum (t0 + JWT_REFRESH_EXPIRES_IN e))])"
    unfolding tok using assms(3) by (intro jwt_verify_fresh) simp_all
  have other: "authService_refreshToken c e t1 (refreshToken res)
                 (map (\<lambda>r. if user_id r = ?i then r\<lparr>refreshTokenHash := h\<rparr> else r) st1)
               = Inl (UnauthorizedError ''Invalid refresh token'')"
    if h: "h \<noteq> Some (sha256_hex c (refreshToken res))" for h
  proof -
    have "find (\<lambda>r. user_id r = ?i)
            (map (\<lambda>r. if user_id r = ?i then r\<lparr>refreshTokenHash := h\<rparr> else r) st1)
          = Some (?u1\<lparr>refreshTokenHash := h\<rparr>)"
      by (rule find_by_id_after_map [OF found, of "\<lambda>r. r\<lparr>refreshTokenHash := h\<rparr>"]) simp
    with ver h show ?thesis
      by (simp add: authService_refreshToken_def userRepository_findById_def field_def)
  qed
  from ref fresh look other show ?thesis
    by (simp add: sid srole)
qed

theorem login_then_refresh_witness:
  "distinct (map user_id [alice])
   \<and> authService_login scenario_crypto scenario_env 1 ''alice'' ''correct'' [alice]
       = Inr (alice_session 1, [alice_logged_in 1])
   \<and> (2::int) < 1 + JWT_REFRESH_EXPIRES_IN scenario_env
   \<and> 0 < JWT_EXPIRES_IN scenario_env
   \<and> authService_refreshToken scenario_crypto scenario_env 2
        (refreshToken (alice_session 1)) [alice_logged_in 1]
       = Inr (Signed [(''userId'', JStr ''u1''), (''role'', JStr ''USER''),
                      (''iat'', JNum 2), (''exp'', JNum 7)] ''access-secret'')
   \<and> jwt_verify (Signed [(''userId'', JStr ''u1''), (''role'', JStr ''USER''),
                          (''iat'', JNum 2), (''exp'', JNum 7)] ''access-secret'')
        (JWT_SECRET scenario_env) 2
       = Inr [(''userId'', JStr ''u1''), (''role'', JStr ''USER''),
              (''iat'', JNum 2), (''exp'', JNum 7)]
   \<and> (\<exists>u1. userRepository_findById (JStr ''u1'') [alice_logged_in 1] = Inr (Some u1)
          \<and> refreshTokenHash u1 = Some (scenario_digest (alice_refresh 1)))
   \<and> authService_refreshToken scenario_crypto scenario_env 2
        (refreshToken (alice_session 1)) [(alice_logged_in 1)\<lparr>refreshTokenHash := None\<rparr>]
       = Inl (UnauthorizedError ''Invalid refresh token'')"
proof -
  have d: "distinct (map user_id [alice])" by simp
  have l: "authService_login scenario_crypto scenario_env 1 ''alice'' ''correct'' [alice]
             = Inr (alice_session 1, [alice_logged_in 1])"
    by (rule scenario_login)
  have t: "(2::int) < 1 + JWT_REFRESH_EXPIRES_IN scenario_env" by (simp add: scenario_env_def)
  have p: "0 < JWT_EXPIRES_IN scenario_env" by (simp add: scenario_env_def)
  have i: "user_id (alice_logged_in 1) = ''u1''" by (simp add: alice_logged_in_def alice_def)
  from login_then_refresh [OF d l t p] d l t p i show ?thesis
    by (simp add: alice_session_def scenario_crypto_def scenario_env_def jwt_sign_def)
qed

text \<open>
  C2. The claim is that a refreshed access token carries the account's current role and
  its current \<open>refreshVersion\<close>. Alice logs in at clock 1 and refreshes at clock 2:
  the new token's claims are \<open>userId\<close>, \<open>role\<close>, \<open>iat\<close> and \<open>exp\<close>. The role
  is there; the \<open>refreshVersion\<close> that login embeds is not, although her row has one.
\<close>

theorem refresh_omits_epoch:
  "authService_login scenario_crypto scenario_env 1 ''alice'' ''correct'' [alice]
     = Inr (alice_session 1, [alice_logged_in 1])
   \<and> authService_refreshToken scenario_crypto scenario_env 2
        (refreshToken (alice_session 1)) [alice_logged_in 1]
     = Inr (Signed [(''userId'', JStr ''u1''), (''role'', JStr ''USER''),
                    (''iat'', JNum 2), (''exp'', JNum 7)] ''access-secret'')
   \<and> field [(''userId'', JStr ''u1''), (''role'', JStr ''USER''),
             (''iat'', JNum 2), (''exp'', JNum 7)] ''refreshVersion'' = JUndefined
   \<and> refreshVersion (alice_logged_in 1) = 0"
  using scenario_login [of 1] scenario_refresh
  by (simp add: field_def alice_session_def alice_logged_in_def alice_def)

section \<open>Logout\<close>

text \<open>
  C5. After a successful login and a logout of that account, a refresh with the token that
  the login issued fails with \<open>Invalid refresh token\<close>, at any time: the logout itself
  succeeds and leaves a null fingerprint, which no digest equals.
\<close>

theorem logout_then_refresh_fails:
  assumes "authService_login c e t0 uname password st = Inr (res, st1)"
  shows "\<exists>st2. authService_logout (summary_id (user res)) st1 = Inr st2
           \<and> authService_refreshToken c e t (refreshToken res) st2
               = Inl (UnauthorizedError ''Invalid refresh token'')"
proof -
  from login_Inr_cases [OF assms] obtain u where
    u: "userRepository_findByUsernameForAuth uname st = Some u"
    and res: "res = issued c e t0 u" and st1: "st1 = stored c e t0 u st"
    by blast
  let ?i = "user_id u"
  let ?clear = "\<lambda>r. if user_id r = ?i then r\<lparr>refreshTokenHash := None\<rparr> else r"
  have sid: "summary_id (user res) = ?i" by (simp add: res issued_def)
  from login_user_found [OF u] obtain u0 where u0: "find (\<lambda>r. user_id r = ?i) st = Some u0" ..
  have "find (\<lambda>r. user_id r = ?i) st1 \<noteq> None"
    unfolding st1 using find_in_stored [OF u0] by simp
  then obtain u1 where "find (\<lambda>r. user_id r = ?i) st1 = Some u1" by blast
  then have out: "authService_logout ?i st1 = Inr (map ?clear st1)"
    using update_found by (simp add: authService_logout_def)
  have tok: "refreshToken res = jwt_sign [(''userId'', JStr ?i)]
               (JWT_REFRESH_SECRET e) (JWT_REFRESH_EXPIRES_IN e) t0"
    by (simp add: res issued_def)
  have "authService_refreshToken c e t (refreshToken res) (map ?clear st1)
          = Inl (UnauthorizedError ''Invalid refresh token'')"
  proof (cases "jwt_verify (refreshToken res) (JWT_REFRESH_SECRET e) t")
    case (Inl err)
    then show ?thesis by (simp add: authService_refreshToken_def)
  next
    case (Inr cl)
    then have uid: "field cl ''userId'' = JStr ?i"
      using jwt_verify_refresh_token unfolding tok by blast
    show ?thesis
    proof (cases "find (\<lambda>r. user_id r = ?i) (map ?clear st1)")
      case None
      with Inr uid show ?thesis
        by (simp add: authService_refreshToken_def userRepository_findById_def)
    next
      case (Some u2)
      from find_Some_holds [OF Some] have "user_id u2 = ?i" and "u2 \<in> set (map ?clear st1)"
        by auto
      then have "refreshTokenHash u2 = None"
        using cleared_rows by blast
      with Inr uid Some show ?thesis
        by (simp add: authService_refreshToken_def userRepository_findById_def)
    qed
  qed
  with out sid show ?thesis by simp
qed

theorem logout_then_refresh_fails_witness:
  "authService_login scenario_crypto scenario_env 1 ''alice'' ''correct'' [alice]
     = Inr (alice_session 1, [alice_logged_in 1])
   \<and> (\<exists>st2. authService_logout (summary_id (user (alice_session 1))) [alice_logged_in 1] = Inr st2
         \<and> authService_refreshToken scenario_crypto scenario_env 2
              (refreshToken (alice_session 1)) st2
            = Inl (UnauthorizedError ''Invalid refresh token''))"
proof -
  have l: "authService_login scenario_crypto scenario_env 1 ''alice'' ''correct'' [alice]
             = Inr (alice_session 1, [alice_logged_in 1])"
    by (rule scenario_login)
  from logout_then_refresh_fails [OF l, of 2] l show ?thesis by simp
qed

text \<open>
  C6. For an existing account, logout succeeds, a second logout succeeds and changes
  nothing, the stored fingerprint is null afterwards, and the result is the same whatever
  fingerprint \<open>h\<close> (null or not) the account had before.
\<close>

theorem logout_idempotent:
  assumes "i \<in> user_id ` set st"
  shows "\<exists>st1 u. authService_logout i st = Inr st1 \<and> authService_logout i st1 = Inr st1
           \<and> userRepository_findById (JStr i) st1 = Inr (Some u) \<and> refreshTokenHash u = None
           \<and> authService_logout i
                (map (\<lambda>r. if user_id r = i then r\<lparr>refreshTokenHash := h\<rparr> else r) st) = Inr st1"
proof -
  let ?clear = "\<lambda>r. if user_id r = i then r\<lparr>refreshTokenHash := None\<rparr> else r"
  let ?set = "\<lambda>r. if user_id r = i then r\<lparr>refreshTokenHash := h\<rparr> else r"
  from assms obtain u0 where u0: "find (\<lambda>r. user_id r = i) st = Some u0"
    by (cases "find (\<lambda>r. user_id r = i) st") (auto simp: find_None_iff)
  have first: "authService_logout i st = Inr (map ?clear st)"
    using update_found [OF u0] by (simp add: authService_logout_def)
  have found: "find (\<lambda>r. user_id r = i) (map ?clear st) = Some (u0\<lparr>refreshTokenHash := None\<rparr>)"
    using find_by_id_after_map [OF u0, of "\<lambda>r. r\<lparr>refreshTokenHash := None\<rparr>"] by simp
  have again: "map ?clear (map ?clear st) = map ?clear st"
    by (induction st) auto
  have second: "authService_logout i (map ?clear st) = Inr (map ?clear st)"
    using update_found [OF found] again by (simp add: authService_logout_def)
  have found': "find (\<lambda>r. user_id r = i) (map ?set st) = Some (u0\<lparr>refreshTokenHash := h\<rparr>)"
    using find_by_id_after_map [OF u0, of "\<lambda>r. r\<lparr>refreshTokenHash := h\<rparr>"] by simp
  have same: "map ?clear (map ?set st) = map ?clear st"
    by (induction st) auto
  have third: "authService_logout i (map ?set st) = Inr (map ?clear st)"
    using update_found [OF found'] same by (simp add: authService_logout_def)
  have look: "userRepository_findById (JStr i) (map ?clear st)
                = Inr (Some (u0\<lparr>refreshTokenHash := None\<rparr>))"
    using found by (simp add: userRepository_findById_def)
  from first second third look show ?thesis by auto
qed

theorem logout_idempotent_witness:
  "''u1'' \<in> user_id ` set [alice]
   \<and> (\<exists>st1 u. authService_logout ''u1'' [alice] = Inr st1
         \<and> authService_logout ''u1'' st1 = Inr st1
         \<and> userRepository_findById (JStr ''u1'') st1 = Inr (Some u) \<and> refreshTokenHash u = None
         \<and> authService_logout ''u1''
              (map (\<lambda>r. if user_id r = ''u1''
                         then r\<lparr>refreshTokenHash := Some (scenario_digest (alice_refresh 1))\<rparr>
                         else r) [alice]) = Inr st1)"
proof -
  have m: "''u1'' \<in> user_id ` set [alice]" by (simp add: alice_def)
  from logout_idempotent [OF m, of "Some (scenario_digest (alice_refresh 1))"] m
  show ?thesis by simp
qed

section \<open>Two logins in a row\<close>

text \<open>
  C9, as stated, fails when the two logins fall within the same clock second: the refresh
  token is signed over \<open>userId\<close>, \<open>iat\<close> and \<open>exp\<close> only, so the second login
  issues the same token again, stores the same fingerprint, and a refresh with the token of
  the first login succeeds.
\<close>

theorem same_second_logins_counterexample:
  "authService_login scenario_crypto scenario_env 1 ''alice'' ''correct'' [alice]
     = Inr (alice_session 1, [alice_logged_in 1])
   \<and> authService_login scenario_crypto scenario_env 1 ''alice'' ''correct'' [alice_logged_in 1]
     = Inr (alice_session 1, [alice_logged_in 1])
   \<and> authService_refreshToken scenario_crypto scenario_env 2
        (refreshToken (alice_session 1)) [alice_logged_in 1]
     \<noteq> Inl (UnauthorizedError ''Invalid refresh token'')"
  using scenario_login [of 1] scenario_login_again [of 1 1] scenario_refresh
  by (simp add: alice_session_def)

text \<open>
  C9, amended. After two successful logins of an account at different clock seconds, with
  a digest that tells the two refresh tokens apart, a refresh with the token of the first
  login fails with \<open>Invalid refresh token\<close>, and a refresh with the token of the
  second login, before it expires, succeeds (ids unique in the store).
\<close>

theorem second_login_supersedes:
  assumes "distinct (map user_id st)"
    and "authService_login c e t1 uname password st = Inr (r1, st1)"
    and "authService_login c e t2 uname password' st1 = Inr (r2, st2)"
    and "t1 \<noteq> t2"
    and "refreshToken r1 \<noteq> refreshToken r2
         \<longrightarrow> sha256_hex c (refreshToken r1) \<noteq> sha256_hex c (refreshToken r2)"
    and "t < t2 + JWT_REFRESH_EXPIRES_IN e"
  shows "authService_refreshToken c e t (refreshToken r1) st2
           = Inl (UnauthorizedError ''Invalid refresh token'')
         \<and> (\<exists>tok. authService_refreshToken c e t (refreshToken r2) st2 = Inr tok)"
proof -
  from login_Inr_cases [OF assms(2)] obtain u where
    u: "userRepository_findByUsernameForAuth uname st = Some u"
    and r1: "r1 = issued c e t1 u" and st1: "st1 = stored c e t1 u st"
    by blast
  from login_Inr_cases [OF assms(3)] obtain u' where
    u': "userRepository_findByUsernameForAuth uname st1 = Some u'"
    and r2: "r2 = issued c e t2 u'" and st2: "st2 = stored c e t2 u' st1"
    by blast
  let ?g = "\<lambda>r. if user_id r = user_id u
                 then r\<lparr>refreshTokenHash := Some (sha256_hex c (refreshToken (issued c e t1 u))),
                        lastLoginAt := Some t1\<rparr>
                 else r"
  have "find (\<lambda>r. username r = uname) (map ?g st) = map_option ?g (find (\<lambda>r. username r = uname) st)"
    by (rule find_map_preserve) simp
  with u u' have same: "user_id u' = user_id u"
    by (auto simp: userRepository_findByUsernameForAuth_def st1 stored_def)
  have d1: "distinct (map user_id st1)"
    using assms(1) by (simp add: st1 stored_ids)
  have "u' \<in> set st1"
    using u' find_Some_holds unfolding userRepository_findByUsernameForAuth_def by fast
  with d1 have "find (\<lambda>r. user_id r = user_id u') st1 = Some u'"
    by (rule find_by_id_distinct)
  then have found: "find (\<lambda>r. user_id r = user_id u) st2
      = Some (u'\<lparr>refreshTokenHash := Some (sha256_hex c (refreshToken r2)), lastLoginAt := Some t2\<rparr>)"
    unfolding st2 r2 same [symmetric] by (rule find_in_stored)
  have tok1: "refreshToken r1 = jwt_sign [(''userId'', JStr (user_id u))]
               (JWT_REFRESH_SECRET e) (JWT_REFRESH_EXPIRES_IN e) t1"
    by (simp add: r1 issued_def)
  have tok2: "refreshToken r2 = jwt_sign [(''userId'', JStr (user_id u))]
               (JWT_REFRESH_SECRET e) (JWT_REFRESH_EXPIRES_IN e) t2"
    by (simp add: r2 issued_def same)
  have "refreshToken r1 \<noteq> refreshToken r2"
    using assms(4) by (simp add: tok1 tok2 jwt_sign_def)
  with assms(5) have differ: "sha256_hex c (refreshToken r2) \<noteq> sha256_hex c (refreshToken r1)"
    by auto
  have first: "authService_refreshToken c e t (refreshToken r1) st2
          = Inl (UnauthorizedError ''Invalid refresh token'')"
  proof (cases "jwt_verify (refreshToken r1) (JWT_REFRESH_SECRET e) t")
    case (Inl err)
    then show ?thesis by (simp add: authService_refreshToken_def)
  next
    case (Inr cl)
    then have "field cl ''userId'' = JStr (user_id u)"
      using jwt_verify_refresh_token unfolding tok1 by blast
    with Inr found differ show ?thesis
      by (simp add: authService_refreshToken_def userRepository_findById_def)
  qed
  from refresh_after_login [OF d1 assms(3) assms(6)]
  have "\<exists>tok. authService_refreshToken c e t (refreshToken r2) st2 = Inr tok"
    by blast
  with first show ?thesis by simp
qed

theorem second_login_supersedes_witness:
  "distinct (map user_id [alice])
   \<and> authService_login scenario_crypto scenario_env 1 ''alice'' ''correct'' [alice]
       = Inr (alice_session 1, [alice_logged_in 1])
   \<and> authService_login scenario_crypto scenario_env 2 ''alice'' ''correct'' [alice_logged_in 1]
       = Inr (alice_session 2, [alice_logged_in 2])
   \<and> (1::int) \<noteq> 2
   \<and> sha256_hex scenario_crypto (refreshToken (alice_session 1))
       \<noteq> sha256_hex scenario_crypto (refreshToken (alice_session 2))
   \<and> (3::int) < 2 + JWT_REFRESH_EXPIRES_IN scenario_env
   \<and> authService_refreshToken scenario_crypto scenario_env 3
        (refreshToken (alice_session 1)) [alice_logged_in 2]
       = Inl (UnauthorizedError ''Invalid refresh token'')
   \<and> (\<exists>tok. authService_refreshToken scenario_crypto scenario_env 3
                (refreshToken (alice_session 2)) [alice_logged_in 2] = Inr tok)"
proof -
  have d: "distinct (map user_id [alice])" by simp
  have l1: "authService_login scenario_crypto scenario_env 1 ''alice'' ''correct'' [alice]
             = Inr (alice_session 1, [alice_logged_in 1])"
    by (rule scenario_login)
  have l2: "authService_login scenario_crypto scenario_env 2 ''alice'' ''correct'' [alice_logged_in 1]
             = Inr (alice_session 2, [alice_logged_in 2])"
    by (rule scenario_login_again)
  have n: "(1::int) \<noteq> 2" by simp
  have h: "sha256_hex scenario_crypto (refreshToken (alice_session 1))
             \<noteq> sha256_hex scenario_crypto (refreshToken (alice_session 2))"
    using scenario_digests_differ by (simp add: scenario_crypto_def alice_session_def)
  then have h': "refreshToken (alice_session 1) \<noteq> refreshToken (alice_session 2)
       \<longrightarrow> sha256_hex scenario_crypto (refreshToken (alice_session 1))
           \<noteq> sha256_hex scenario_crypto (refreshToken (alice_session 2))"
    by simp
  have t: "(3::int) < 2 + JWT_REFRESH_EXPIRES_IN scenario_env" by (simp add: scenario_env_def)
  from second_login_supersedes [OF d l1 l2 n h' t] d l1 l2 h t show ?thesis by simp
qed

section \<open>The middleware\<close>

text \<open>
  The comparison the middleware makes: when the lookup returns a row whose
  \<open>refresh_version\<close> is not loosely equal to the token's \<open>refresh_version\<close> claim, the
  request is rejected with \<open>Token is not valid\<close>.
\<close>

lemma middleware_checks_refresh_version:
  assumes "jwt_verify token (JWT_SECRET e) now = Inr decoded"
    and "findById (JObj [(''id'', field decoded ''id'')]) = Inr (JObj r)"
    and "\<not> loose_eq (field r ''refresh_version'') (field decoded ''refresh_version'')"
  shows "authMiddleware findById e now (Some (Bearer token))
           = NextError (UnauthorizedError ''Token is not valid'')"
  using assms by (simp add: authMiddleware_def authMiddleware_try_def)

text \<open>
  The access token of a login has neither an \<open>id\<close> nor a \<open>refresh_version\<close> claim: it
  carries \<open>userId\<close> and \<open>refreshVersion\<close>. So for such a token the lookup is made with
  an undefined id, and whenever it does return a row, the two sides of the comparison are
  both undefined and the request is accepted, whatever the row's \<open>refreshVersion\<close>.
\<close>

lemma login_token_claims:
  assumes "jwt_verify (accessToken (issued c e t0 u)) (JWT_SECRET e) now = Inr decoded"
  shows "field decoded ''id'' = JUndefined" and "field decoded ''refresh_version'' = JUndefined"
    and "field decoded ''userId'' = JStr (user_id u)"
    and "field decoded ''refreshVersion'' = JNum (refreshVersion u)"
  using assms by (auto simp: issued_def jwt_sign_def field_def split: if_splits)

lemma middleware_login_token_any_epoch:
  assumes "jwt_verify (accessToken (issued c e t0 u)) (JWT_SECRET e) now = Inr decoded"
    and "findById (JObj [(''id'', JUndefined)]) = Inr (row u')"
  shows "authMiddleware findById e now (Some (Bearer (accessToken (issued c e t0 u))))
           = Accepted decoded"
  using assms login_token_claims(1,2) [OF assms(1)]
  by (simp add: authMiddleware_def authMiddleware_try_def row_def field_def)

text \<open>
  C1. The claim is that an unexpired access token whose epoch differs from the account's
  stored one is rejected as superseded. Alice logs in at clock 1 with \<open>refreshVersion\<close>
  0; her stored \<open>refreshVersion\<close> is then bumped to 1; at clock 2 she presents the
  access token. With the authentication repository of the sources the lookup is rejected
  by the database client (its \<open>id\<close> is an object) and that error is passed on; with a
  lookup that does return her row the request is accepted. In neither case is it rejected
  with \<open>Token is not valid\<close>.
\<close>

theorem stale_epoch_not_superseded:
  "authService_login scenario_crypto scenario_env 1 ''alice'' ''correct'' [alice]
     = Inr (alice_session 1, [alice_logged_in 1])
   \<and> jwt_verify (accessToken (alice_session 1)) (JWT_SECRET scenario_env) 2
     = Inr [(''userId'', JStr ''u1''), (''role'', JStr ''USER''), (''username'', JStr ''alice''),
            (''refreshVersion'', JNum 0), (''iat'', JNum 1), (''exp'', JNum 6)]
   \<and> refreshVersion ((alice_logged_in 1)\<lparr>refreshVersion := 1\<rparr>) = 1
   \<and> authMiddleware (authRepository_findById [(alice_logged_in 1)\<lparr>refreshVersion := 1\<rparr>])
        scenario_env 2 (Some (Bearer (accessToken (alice_session 1))))
     = NextError PrismaClientValidationError
   \<and> authMiddleware (\<lambda>arg. Inr (row ((alice_logged_in 1)\<lparr>refreshVersion := 1\<rparr>)))
        scenario_env 2 (Some (Bearer (accessToken (alice_session 1))))
     = Accepted [(''userId'', JStr ''u1''), (''role'', JStr ''USER''), (''username'', JStr ''alice''),
                 (''refreshVersion'', JNum 0), (''iat'', JNum 1), (''exp'', JNum 6)]"
  using scenario_login [of 1]
  by (simp add: authMiddleware_def authMiddleware_try_def authRepository_findById_def
      row_def field_def scenario_defs)

text \<open>
  C10. For a token that verifies, when the lookup returns \<open>null\<close> the middleware passes
  on the runtime's \<open>TypeError\<close> for reading \<open>refresh_version\<close> of \<open>null\<close>: the
  request is not accepted, and it is not rejected with any \<open>UnauthorizedError\<close>.
\<close>

theorem middleware_null_lookup:
  assumes "jwt_verify token (JWT_SECRET e) now = Inr decoded"
    and "findById (JObj [(''id'', field decoded ''id'')]) = Inr JNull"
  shows "authMiddleware findById e now (Some (Bearer token))
           = NextError (TypeError ''Cannot read properties of null (reading refresh_version)'')
         \<and> (\<forall>d. authMiddleware findById e now (Some (Bearer token)) \<noteq> Accepted d)
         \<and> (\<forall>m. authMiddleware findById e now (Some (Bearer token))
                  \<noteq> NextError (UnauthorizedError m))"
  using assms by (simp add: authMiddleware_def authMiddleware_try_def)

theorem middleware_null_lookup_witness:
  "jwt_verify (Signed [(''id'', JStr ''ghost''), (''refresh_version'', JNum 0),
                        (''iat'', JNum 1), (''exp'', JNum 6)] ''access-secret'')
     (JWT_SECRET scenario_env) 2
     = Inr [(''id'', JStr ''ghost''), (''refresh_version'', JNum 0),
            (''iat'', JNum 1), (''exp'', JNum 6)]
   \<and> authRepository_findById [alice] (JStr ''ghost'') = Inr JNull
   \<and> authMiddleware (\<lambda>arg. authRepository_findById [alice]
                               (case arg of JObj ps \<Rightarrow> field ps ''id'' | _ \<Rightarrow> arg))
        scenario_env 2
        (Some (Bearer (Signed [(''id'', JStr ''ghost''), (''refresh_version'', JNum 0),
                               (''iat'', JNum 1), (''exp'', JNum 6)] ''access-secret'')))
     = NextError (TypeError ''Cannot read properties of null (reading refresh_version)'')"
proof -
  let ?cl = "[(''id'', JStr ''ghost''), (''refresh_version'', JNum 0),
              (''iat'', JNum 1), (''exp'', JNum 6)]"
  let ?find = "\<lambda>arg. authRepository_findById [alice]
                         (case arg of JObj ps \<Rightarrow> field ps ''id'' | _ \<Rightarrow> arg)"
  have v: "jwt_verify (Signed ?cl ''access-secret'') (JWT_SECRET scenario_env) 2 = Inr ?cl"
    by (simp add: scenario_env_def)
  have n: "authRepository_findById [alice] (JStr ''ghost'') = Inr JNull"
    by (simp add: authRepository_findById_def alice_def)
  have l: "?find (JObj [(''id'', field ?cl ''id'')]) = Inr JNull"
    using n by (simp add: field_def)
  from middleware_null_lookup [of "Signed ?cl ''access-secret''" scenario_env 2 ?cl ?find, OF v l] v n
  show ?thesis by simp
qed

end
